theory Spec2Isabelle
  imports Main
begin

section \<open>Client session state machine (client core/ConnectionManager.ts)\<close>

text \<open>
  The enum \<open>ConnectionState\<close>; the constructors carry the enum's string values,
  capitalised.
\<close>

datatype ConnectionState =
  Disconnected | Connecting | Connected | Authenticated | Error | Reconnecting

text \<open>
  A state-change listener is a callback; it is identified by a number, and the
  \<open>Set\<close> of listeners is the list of its members in insertion order. A listener
  only observes: it does not call back into the manager, and what it throws is caught
  by \<open>notifyListeners\<close>. A call of a listener is recorded as the pair of the
  listener and the state it was given.
\<close>

type_synonym listener = nat

type_synonym listener_call = "listener \<times> ConnectionState"

record ClientConnectionManager =
  state :: ConnectionState
  listeners :: "listener list"
  reconnectAttempts :: int
  maxReconnectAttempts :: int

definition ClientConnectionManager_new :: "int \<Rightarrow> ClientConnectionManager" where
  "ClientConnectionManager_new maxAttempts =
     \<lparr>state = Disconnected, listeners = [], reconnectAttempts = 0,
      maxReconnectAttempts = maxAttempts\<rparr>"

definition getState :: "ClientConnectionManager \<Rightarrow> ConnectionState" where
  "getState cm = state cm"

definition notifyListeners :: "ClientConnectionManager \<Rightarrow> listener_call list" where
  "notifyListeners cm = map (\<lambda>l. (l, state cm)) (listeners cm)"

definition setState ::
  "ConnectionState \<Rightarrow> ClientConnectionManager \<Rightarrow> listener_call list \<times> ClientConnectionManager"
where
  "setState s cm =
     (if state cm \<noteq> s
      then (let cm' = cm\<lparr>state := s\<rparr> in (notifyListeners cm', cm'))
      else ([], cm))"

definition isConnected :: "ClientConnectionManager \<Rightarrow> bool" where
  "isConnected cm = (state cm = Connected \<or> state cm = Authenticated)"

definition isAuthenticated :: "ClientConnectionManager \<Rightarrow> bool" where
  "isAuthenticated cm = (state cm = Authenticated)"

definition onStateChange :: "listener \<Rightarrow> ClientConnectionManager \<Rightarrow> ClientConnectionManager" where
  "onStateChange l cm =
     cm\<lparr>listeners := (if l \<in> set (listeners cm) then listeners cm else listeners cm @ [l])\<rparr>"

definition incrementReconnectAttempts ::
  "ClientConnectionManager \<Rightarrow> int \<times> ClientConnectionManager"
where
  "incrementReconnectAttempts cm =
     (let cm' = cm\<lparr>reconnectAttempts := reconnectAttempts cm + 1\<rparr>
      in (reconnectAttempts cm', cm'))"

definition resetReconnectAttempts :: "ClientConnectionManager \<Rightarrow> ClientConnectionManager" where
  "resetReconnectAttempts cm = cm\<lparr>reconnectAttempts := 0\<rparr>"

definition getReconnectAttempts :: "ClientConnectionManager \<Rightarrow> int" where
  "getReconnectAttempts cm = reconnectAttempts cm"

definition canReconnect :: "ClientConnectionManager \<Rightarrow> bool" where
  "canReconnect cm = (reconnectAttempts cm < maxReconnectAttempts cm)"

definition reset :: "ClientConnectionManager \<Rightarrow> ClientConnectionManager" where
  "reset cm = cm\<lparr>state := Disconnected, reconnectAttempts := 0, listeners := []\<rparr>"

text \<open>A finite sequence of \<open>setState\<close> calls, made one after the other.\<close>

fun setStates ::
  "ConnectionState list \<Rightarrow> ClientConnectionManager \<Rightarrow> listener_call list \<times> ClientConnectionManager"
where
  "setStates [] cm = ([], cm)"
| "setStates (s # ss) cm =
     (let (calls1, cm1) = setState s cm;
          (calls2, cm2) = setStates ss cm1
      in (calls1 @ calls2, cm2))"

text \<open>The states a given listener was called with, in order.\<close>

definition calls_of :: "listener \<Rightarrow> listener_call list \<Rightarrow> ConnectionState list" where
  "calls_of l calls = map snd (filter (\<lambda>c. fst c = l) calls)"


section \<open>Client session orchestrator (client core/SocketClient.ts)\<close>

text \<open>
  The configuration after the constructor has merged the defaults with what the caller
  gave; only the fields the orchestrator's control flow reads are kept. Numbers are
  integers (the source's are doubles, exact on integers below \<open>2^53\<close>).
\<close>

record ClientConfig =
  autoConnect :: bool
  reconnection :: bool
  reconnectionAttempts :: int
  reconnectionDelay :: int

definition defaultClientConfig :: ClientConfig where
  "defaultClientConfig =
     \<lparr>autoConnect = True, reconnection = True, reconnectionAttempts = 5,
      reconnectionDelay = 1000\<rparr>"

text \<open>
  A pending \<open>setTimeout\<close>: the attempt number its callback logs and the delay it
  was armed with. Its callback calls \<open>connect\<close>.
\<close>

record Timer =
  attempt :: int
  delay :: int

text \<open>
  What a call of the orchestrator does to the outside: a state listener is called, an
  event is published on the event emitter (name and arguments), a warning is logged, a
  transport is opened with \<open>io(...)\<close>, a timer is armed or cleared.
\<close>

datatype client_effect =
  Notify listener ConnectionState
| Publish string "string list"
| Warn string
| OpenTransport
| SetTimeout Timer
| ClearTimeout Timer

text \<open>
  The field \<open>socket\<close> is \<open>None\<close> for \<open>null\<close> and otherwise holds the transport's
  \<open>connected\<close> flag, which the transport sets before it reports \<open>connect\<close> and
  clears before it reports \<open>disconnect\<close>.
\<close>

record SocketClient =
  socket :: "bool option"
  config :: ClientConfig
  connectionManager :: ClientConnectionManager
  userId :: "string option"
  reconnectTimer :: "Timer option"

definition notified :: "listener_call list \<Rightarrow> client_effect list" where
  "notified calls = map (\<lambda>(l, s). Notify l s) calls"

definition connect :: "SocketClient \<Rightarrow> client_effect list \<times> SocketClient" where
  "connect c =
     (if socket c = Some True then ([Warn ''Socket already connected''], c)
      else
        (let (calls, cm) = setState Connecting (connectionManager c)
         in (notified calls @ [OpenTransport],
             c\<lparr>connectionManager := cm, socket := Some False\<rparr>)))"

definition SocketClient_new :: "ClientConfig \<Rightarrow> client_effect list \<times> SocketClient" where
  "SocketClient_new cfg =
     (let c = \<lparr>socket = None, config = cfg,
               connectionManager = ClientConnectionManager_new (reconnectionAttempts cfg),
               userId = None, reconnectTimer = None\<rparr>
      in if autoConnect cfg then connect c else ([], c))"

definition shouldReconnect :: "string \<Rightarrow> SocketClient \<Rightarrow> bool" where
  "shouldReconnect reason c =
     (reason \<noteq> ''io client disconnect'' \<and> canReconnect (connectionManager c))"

definition scheduleReconnect :: "SocketClient \<Rightarrow> client_effect list \<times> SocketClient" where
  "scheduleReconnect c =
     (let cleared = (case reconnectTimer c of None \<Rightarrow> [] | Some t \<Rightarrow> [ClearTimeout t]);
          (n, cm1) = incrementReconnectAttempts (connectionManager c);
          d = reconnectionDelay (config c) * n;
          (calls, cm2) = setState Reconnecting cm1;
          t = \<lparr>attempt = n, delay = d\<rparr>
      in (cleared @ notified calls @ [SetTimeout t],
          c\<lparr>connectionManager := cm2, reconnectTimer := Some t\<rparr>))"

text \<open>The three transport listeners of \<open>setupSocketListeners\<close> that drive the state machine.\<close>

definition on_connect :: "SocketClient \<Rightarrow> client_effect list \<times> SocketClient" where
  "on_connect c =
     (let (calls, cm1) = setState Connected (connectionManager c);
          cm2 = resetReconnectAttempts cm1
      in (notified calls @ [Publish ''connect'' []],
          c\<lparr>connectionManager := cm2, socket := map_option (\<lambda>_. True) (socket c)\<rparr>))"

definition on_disconnect :: "string \<Rightarrow> SocketClient \<Rightarrow> client_effect list \<times> SocketClient" where
  "on_disconnect reason c =
     (let (calls, cm1) = setState Disconnected (connectionManager c);
          c1 = c\<lparr>connectionManager := cm1, userId := None,
                 socket := map_option (\<lambda>_. False) (socket c)\<rparr>;
          effs = notified calls @ [Publish ''disconnect'' [reason]]
      in if reconnection (config c1) \<and> shouldReconnect reason c1
         then (let (effs2, c2) = scheduleReconnect c1 in (effs @ effs2, c2))
         else (effs, c1))"

definition on_connect_error :: "string \<Rightarrow> SocketClient \<Rightarrow> client_effect list \<times> SocketClient" where
  "on_connect_error err c =
     (let (calls, cm1) = setState Error (connectionManager c);
          c1 = c\<lparr>connectionManager := cm1\<rparr>;
          effs = notified calls @ [Publish ''error'' [err]]
      in if reconnection (config c1)
         then (let (effs2, c2) = scheduleReconnect c1 in (effs @ effs2, c2))
         else (effs, c1))"

text \<open>
  What reaches one client from outside: the transport reports that it opened, that it
  closed with a reason, or that connecting failed; or the pending reconnect timer fires
  and its callback calls \<open>connect\<close>.
\<close>

datatype client_event =
  TransportConnect
| TransportDisconnect string
| TransportConnectError string
| TimerFired

fun client_step :: "client_event \<Rightarrow> SocketClient \<Rightarrow> client_effect list \<times> SocketClient" where
  "client_step TransportConnect c = on_connect c"
| "client_step (TransportDisconnect reason) c = on_disconnect reason c"
| "client_step (TransportConnectError err) c = on_connect_error err c"
| "client_step TimerFired c = connect c"

fun client_run :: "client_event list \<Rightarrow> SocketClient \<Rightarrow> client_effect list \<times> SocketClient" where
  "client_run [] c = ([], c)"
| "client_run (e # es) c =
     (let (effs1, c1) = client_step e c;
          (effs2, c2) = client_run es c1
      in (effs1 @ effs2, c2))"

text \<open>The timers armed by a list of effects, in order.\<close>

fun timers_set :: "client_effect list \<Rightarrow> Timer list" where
  "timers_set [] = []"
| "timers_set (SetTimeout t # effs) = t # timers_set effs"
| "timers_set (_ # effs) = timers_set effs"


text \<open>
  The default client after five failed connection attempts: each time the transport
  reports \<open>connect_error\<close> and the timer armed for it fires.
\<close>

definition exhausted_client :: SocketClient where
  "exhausted_client =
     snd (client_run
       [TransportConnectError ''refused'', TimerFired,
        TransportConnectError ''refused'', TimerFired,
        TransportConnectError ''refused'', TimerFired,
        TransportConnectError ''refused'', TimerFired,
        TransportConnectError ''refused'', TimerFired]
       (snd (SocketClient_new defaultClientConfig)))"

section \<open>Server session handle (server core/Connection.ts)\<close>

text \<open>
  The shared type \<open>User\<close>. Its field \<open>id\<close> is written \<open>id'\<close> here. The opaque
  \<open>metadata\<close> object is a list of key/value pairs; the server only passes it on.
\<close>

type_synonym metadata = "(string \<times> string) list"

record User =
  id' :: string
  socketId :: string
  connectedAt :: int
  user_metadata :: "metadata option"

text \<open>
  A \<open>Connection\<close> wraps one transport socket, which is represented by its id, the
  only thing of the socket that the registry and the handlers read.
\<close>

record Connection =
  socket_id :: string
  user :: "User option"
  isAuthenticated_flag :: bool

definition Connection_new :: "string \<Rightarrow> Connection" where
  "Connection_new sid = \<lparr>socket_id = sid, user = None, isAuthenticated_flag = False\<rparr>"

definition authenticate :: "User \<Rightarrow> Connection \<Rightarrow> Connection" where
  "authenticate u c = c\<lparr>user := Some u, isAuthenticated_flag := True\<rparr>"

definition getUser :: "Connection \<Rightarrow> User option" where
  "getUser c = user c"

text \<open>
  \<open>this.user?.id || null\<close>: no user gives \<open>null\<close>, and so does a user whose id is
  the empty string, which is falsy.
\<close>

definition getUserId :: "Connection \<Rightarrow> string option" where
  "getUserId c =
     (case user c of
        None \<Rightarrow> None
      | Some u \<Rightarrow> if id' u = [] then None else Some (id' u))"

definition getSocketId :: "Connection \<Rightarrow> string" where
  "getSocketId c = socket_id c"

definition isAuth :: "Connection \<Rightarrow> bool" where
  "isAuth c = isAuthenticated_flag c"

section \<open>Server connection registry (server core/ConnectionManager.ts)\<close>

text \<open>
  The two \<open>Map\<close>s. The registry holds each \<open>Connection\<close> object under one key, its
  socket id, so that updating the object in place is updating the map's value.
\<close>

record ConnectionManager =
  connections :: "string \<rightharpoonup> Connection"
  userSockets :: "string \<rightharpoonup> string"

definition ConnectionManager_new :: ConnectionManager where
  "ConnectionManager_new = \<lparr>connections = Map.empty, userSockets = Map.empty\<rparr>"

definition addConnection :: "Connection \<Rightarrow> ConnectionManager \<Rightarrow> ConnectionManager" where
  "addConnection connection cm =
     cm\<lparr>connections := (connections cm)(getSocketId connection \<mapsto> connection)\<rparr>"

definition removeConnection :: "string \<Rightarrow> ConnectionManager \<Rightarrow> ConnectionManager" where
  "removeConnection sid cm =
     (case connections cm sid of
        None \<Rightarrow> cm
      | Some connection \<Rightarrow>
          (let us = (case getUserId connection of
                       None \<Rightarrow> userSockets cm
                     | Some uid \<Rightarrow> (userSockets cm)(uid := None))
           in cm\<lparr>userSockets := us, connections := (connections cm)(sid := None)\<rparr>))"

definition getConnection :: "string \<Rightarrow> ConnectionManager \<Rightarrow> Connection option" where
  "getConnection sid cm = connections cm sid"

text \<open>\<open>if (!socketId) return undefined\<close>: a missing entry, and also an empty socket id.\<close>

definition getConnectionByUserId :: "string \<Rightarrow> ConnectionManager \<Rightarrow> Connection option" where
  "getConnectionByUserId uid cm =
     (case userSockets cm uid of
        None \<Rightarrow> None
      | Some sid \<Rightarrow> if sid = [] then None else connections cm sid)"

definition authenticateConnection :: "string \<Rightarrow> User \<Rightarrow> ConnectionManager \<Rightarrow> ConnectionManager" where
  "authenticateConnection sid u cm =
     (case connections cm sid of
        None \<Rightarrow> cm
      | Some connection \<Rightarrow>
          cm\<lparr>connections := (connections cm)(sid \<mapsto> authenticate u connection),
             userSockets := (userSockets cm)(id' u \<mapsto> sid)\<rparr>)"

definition isUserOnline :: "string \<Rightarrow> ConnectionManager \<Rightarrow> bool" where
  "isUserOnline uid cm = (userSockets cm uid \<noteq> None)"

text \<open>
  The result of \<open>getUsersOnlineStatus\<close> is a plain object created by \<open>{}\<close>; it is
  modelled by the map of its own properties. The assignment \<open>statuses[userId] = b\<close> of
  a boolean creates or overwrites the own property \<open>userId\<close>, except for the name
  \<open>__proto__\<close>: that assignment runs the setter the object inherits from
  \<open>Object.prototype\<close>, which ignores a value that is neither an object nor \<open>null\<close>, and
  the object gets no property.
\<close>

definition assign_property :: "string \<Rightarrow> bool \<Rightarrow> (string \<rightharpoonup> bool) \<Rightarrow> (string \<rightharpoonup> bool)" where
  "assign_property name b obj = (if name = ''__proto__'' then obj else obj(name \<mapsto> b))"

text \<open>
  \<open>getUsersOnlineStatus\<close>: the \<open>forEach\<close> over the requested ids, each assigning one
  property of the result object.
\<close>

definition getUsersOnlineStatus :: "string list \<Rightarrow> ConnectionManager \<Rightarrow> (string \<rightharpoonup> bool)" where
  "getUsersOnlineStatus userIds cm =
     foldl (\<lambda>statuses uid. assign_property uid (isUserOnline uid cm) statuses) Map.empty userIds"

text \<open>The registry operations that change the registry, and a sequence of them.\<close>

datatype registry_op =
  AddConnection Connection
| AuthenticateConnection string User
| RemoveConnection string

fun registry_step :: "registry_op \<Rightarrow> ConnectionManager \<Rightarrow> ConnectionManager" where
  "registry_step (AddConnection c) cm = addConnection c cm"
| "registry_step (AuthenticateConnection sid u) cm = authenticateConnection sid u cm"
| "registry_step (RemoveConnection sid) cm = removeConnection sid cm"

definition registry_run :: "registry_op list \<Rightarrow> ConnectionManager \<Rightarrow> ConnectionManager" where
  "registry_run ops cm = foldl (\<lambda>m operation. registry_step operation m) cm ops"

text \<open>
  Invariant R1 of the specification: every entry \<open>userId \<mapsto> sid\<close> of the user map
  points at a registered session whose user has that id.
\<close>

definition R1 :: "ConnectionManager \<Rightarrow> bool" where
  "R1 cm =
     (\<forall>uid sid. userSockets cm uid = Some sid \<longrightarrow>
        (\<exists>c u. connections cm sid = Some c \<and> user c = Some u \<and> id' u = uid))"


text \<open>
  Every user held by a registered session has a non-empty id.
\<close>

definition named_users :: "ConnectionManager \<Rightarrow> bool" where
  "named_users cm =
     (\<forall>sid c u. connections cm sid = Some c \<and> user c = Some u \<longrightarrow> id' u \<noteq> [])"

text \<open>
  A registry operation as the server core issues it on a connection's first
  authentication: a session is added new and unauthenticated under an id that is not
  registered; a session is authenticated with a user whose id is not empty, and was not
  authenticated before under another user id. A sequence of operations is orderly when
  each operation is so in the registry it is applied to.
\<close>

fun first_authentication :: "registry_op \<Rightarrow> ConnectionManager \<Rightarrow> bool" where
  "first_authentication (AddConnection c) cm =
     (connections cm (getSocketId c) = None \<and> user c = None)"
| "first_authentication (AuthenticateConnection sid u) cm =
     (id' u \<noteq> [] \<and>
      (case connections cm sid of
         None \<Rightarrow> True
       | Some c \<Rightarrow> (case user c of None \<Rightarrow> True | Some v \<Rightarrow> id' v = id' u)))"
| "first_authentication (RemoveConnection sid) cm = True"

fun orderly :: "registry_op list \<Rightarrow> ConnectionManager \<Rightarrow> bool" where
  "orderly [] cm = True"
| "orderly (operation # ops) cm =
     (first_authentication operation cm \<and> orderly ops (registry_step operation cm))"

section \<open>Protocol handlers (server plugins)\<close>

text \<open>The wire events (shared \<open>SocketEvent\<close>).\<close>

datatype SocketEvent =
  CONNECT | DISCONNECT | ERROR
| AUTHENTICATE | AUTHENTICATED | AUTH_ERROR
| USER_ONLINE | USER_OFFLINE | GET_ONLINE_STATUS | ONLINE_STATUS
| SEND_MESSAGE | RECEIVE_MESSAGE | MESSAGE_DELIVERED | MESSAGE_ERROR
| TYPING_START | TYPING_STOP

text \<open>
  The payloads the handlers send, with their fields in this order:
  \<^item> \<open>MessageErrorPayload\<close>: \<open>messageId\<close> (absent when the handler gives none), \<open>error\<close>;
  \<^item> \<open>ReceiveMessagePayload\<close>: \<open>from\<close>, \<open>content\<close>, \<open>timestamp\<close>, \<open>messageId\<close>, \<open>metadata\<close>;
  \<^item> \<open>MessageDeliveredPayload\<close>: \<open>messageId\<close>;
  \<^item> \<open>TypingPayload\<close>: \<open>from\<close>;
  \<^item> \<open>AuthenticatedPayload\<close>: \<open>userId\<close>, \<open>socketId\<close>;
  \<^item> \<open>AuthErrorPayload\<close>: \<open>message\<close>.
\<close>

datatype payload =
  MessageErrorPayload "string option" string
| ReceiveMessagePayload string string int string "metadata option"
| MessageDeliveredPayload string
| TypingPayload string
| AuthenticatedPayload string string
| AuthErrorPayload string

text \<open>
  What a handler does to the transport: the socket with the given id emits an event with
  a payload to its client, or the socket with the given id is told to disconnect.
\<close>

datatype server_effect =
  Emit string SocketEvent payload
| DisconnectSocket string

text \<open>The payload of a \<open>send_message\<close> request: \<open>to\<close>, \<open>content\<close>, \<open>metadata\<close>.\<close>

record SendMessagePayload =
  p_to :: string
  p_content :: string
  p_metadata :: "metadata option"

text \<open>
  The \<open>send_message\<close> listener that \<open>MessagePlugin.handleConnection\<close> attaches to the
  socket with id \<open>sid\<close>. The value \<open>uuid\<close> is what its one call of \<open>randomUUID()\<close>
  returns and \<open>now\<close> what \<open>Date.now()\<close> returns.
\<close>

definition send_message_handler ::
  "string \<Rightarrow> string \<Rightarrow> int \<Rightarrow> SendMessagePayload \<Rightarrow> ConnectionManager \<Rightarrow> server_effect list"
where
  "send_message_handler sid uuid now p cm =
     (case getConnection sid cm of
        None \<Rightarrow> [Emit sid MESSAGE_ERROR (MessageErrorPayload None ''Not authenticated'')]
      | Some connection \<Rightarrow>
          if \<not> isAuth connection
          then [Emit sid MESSAGE_ERROR (MessageErrorPayload None ''Not authenticated'')]
          else
            (case getUserId connection of
               None \<Rightarrow> [Emit sid MESSAGE_ERROR (MessageErrorPayload None ''Invalid user'')]
             | Some fromUserId \<Rightarrow>
                 (case getConnectionByUserId (p_to p) cm of
                    None \<Rightarrow>
                      [Emit sid MESSAGE_ERROR
                         (MessageErrorPayload (Some uuid) ''Recipient is offline'')]
                  | Some recipientConnection \<Rightarrow>
                      [Emit (getSocketId recipientConnection) RECEIVE_MESSAGE
                         (ReceiveMessagePayload fromUserId (p_content p) now uuid (p_metadata p)),
                       Emit sid MESSAGE_DELIVERED (MessageDeliveredPayload uuid)])))"

text \<open>The \<open>typing_start\<close> and \<open>typing_stop\<close> listeners; \<open>recipient\<close> is \<open>payload.to\<close>.\<close>

definition typing_start_handler :: "string \<Rightarrow> string \<Rightarrow> ConnectionManager \<Rightarrow> server_effect list" where
  "typing_start_handler sid recipient cm =
     (case getConnection sid cm of
        None \<Rightarrow> []
      | Some connection \<Rightarrow>
          if \<not> isAuth connection then []
          else
            (case getUserId connection of
               None \<Rightarrow> []
             | Some fromUserId \<Rightarrow>
                 (case getConnectionByUserId recipient cm of
                    None \<Rightarrow> []
                  | Some recipientConnection \<Rightarrow>
                      [Emit (getSocketId recipientConnection) TYPING_START
                         (TypingPayload fromUserId)])))"

definition typing_stop_handler :: "string \<Rightarrow> string \<Rightarrow> ConnectionManager \<Rightarrow> server_effect list" where
  "typing_stop_handler sid recipient cm =
     (case getConnection sid cm of
        None \<Rightarrow> []
      | Some connection \<Rightarrow>
          if \<not> isAuth connection then []
          else
            (case getUserId connection of
               None \<Rightarrow> []
             | Some fromUserId \<Rightarrow>
                 (case getConnectionByUserId recipient cm of
                    None \<Rightarrow> []
                  | Some recipientConnection \<Rightarrow>
                      [Emit (getSocketId recipientConnection) TYPING_STOP
                         (TypingPayload fromUserId)])))"

text \<open>
  The injected validator \<open>AuthHandler\<close>: for a token, its promise resolves to a user or
  to \<open>null\<close>, or it rejects (the validator threw).
\<close>

datatype auth_outcome = Resolves "User option" | Rejects

type_synonym AuthHandler = "string \<Rightarrow> auth_outcome"

text \<open>
  The \<open>authenticate\<close> listener of \<open>AuthPlugin.handleConnection\<close> on the socket with id
  \<open>sid\<close>, run from the request to its end; \<open>cm\<close> is the registry when the validator's
  promise settles. \<open>socket.disconnect()\<close> is a request to the transport; what the
  transport then reports is handled by the server's own \<open>disconnect\<close> listener, not here.
\<close>

definition authenticate_handler ::
  "AuthHandler \<Rightarrow> string \<Rightarrow> int \<Rightarrow> string \<Rightarrow> ConnectionManager
     \<Rightarrow> server_effect list \<times> ConnectionManager"
where
  "authenticate_handler authHandler sid now token cm =
     (case authHandler token of
        Rejects \<Rightarrow>
          ([Emit sid AUTH_ERROR (AuthErrorPayload ''Authentication failed''),
            DisconnectSocket sid], cm)
      | Resolves None \<Rightarrow>
          ([Emit sid AUTH_ERROR (AuthErrorPayload ''Invalid authentication token''),
            DisconnectSocket sid], cm)
      | Resolves (Some u) \<Rightarrow>
          (let u' = u\<lparr>socketId := sid, connectedAt := now\<rparr>
           in ([Emit sid AUTHENTICATED (AuthenticatedPayload (id' u') sid)],
               authenticateConnection sid u' cm)))"

text \<open>
  A session handle as the documented operations leave it: created for a socket, then
  authenticated with the given users, one after the other.
\<close>

definition authenticated_with :: "User list \<Rightarrow> string \<Rightarrow> Connection" where
  "authenticated_with us sid = foldl (\<lambda>c u. authenticate u c) (Connection_new sid) us"


section \<open>Concrete registries and users used in the examples\<close>

text \<open>A user as a validator returns it, with the given id.\<close>

definition user_of :: "string \<Rightarrow> User" where
  "user_of uid = \<lparr>id' = uid, socketId = [], connectedAt = 0, user_metadata = None\<rparr>"

text \<open>Two sessions \<open>s1\<close> and \<open>s2\<close> are connected and nobody has authenticated.\<close>

definition two_sessions :: ConnectionManager where
  "two_sessions =
     registry_run [AddConnection (Connection_new ''s1''), AddConnection (Connection_new ''s2'')]
       ConnectionManager_new"

text \<open>Session \<open>s1\<close> has authenticated as alice and session \<open>s2\<close> as bob.\<close>

definition alice_and_bob :: ConnectionManager where
  "alice_and_bob =
     registry_run
       [AuthenticateConnection ''s1'' (user_of ''alice''),
        AuthenticateConnection ''s2'' (user_of ''bob'')]
       two_sessions"

text \<open>
  Session \<open>s1\<close> has authenticated as a user whose id is the empty string, and session
  \<open>s2\<close> as bob.
\<close>

definition nameless_and_bob :: ConnectionManager where
  "nameless_and_bob =
     registry_run
       [AuthenticateConnection ''s1'' (user_of ''''),
        AuthenticateConnection ''s2'' (user_of ''bob'')]
       two_sessions"

text \<open>Only the user \<open>a\<close> is online, on session \<open>s1\<close>.\<close>

definition only_a_online :: ConnectionManager where
  "only_a_online = registry_run [AuthenticateConnection ''s1'' (user_of ''a'')] two_sessions"

text \<open>
  Session \<open>s1\<close> connects, authenticates as alice, and then authenticates again as bob.
\<close>

definition reauthenticated :: ConnectionManager where
  "reauthenticated =
     registry_run
       [AddConnection (Connection_new ''s1''),
        AuthenticateConnection ''s1'' (user_of ''alice''),
        AuthenticateConnection ''s1'' (user_of ''bob'')]
       ConnectionManager_new"

text \<open>
  A validator that accepts the token \<open>t1\<close> as alice, throws on \<open>boom\<close> and knows no
  other token.
\<close>

definition token_validator :: AuthHandler where
  "token_validator token =
     (if token = ''t1'' then Resolves (Some (user_of ''alice''))
      else if token = ''boom'' then Rejects
      else Resolves None)"

section \<open>The state machine notifies once per change of state\<close>

lemma calls_of_append: "calls_of l (xs @ ys) = calls_of l xs @ calls_of l ys"
  by (simp add: calls_of_def)

lemma calls_of_one_round:
  "distinct ls \<Longrightarrow> l \<in> set ls \<Longrightarrow> calls_of l (map (\<lambda>k. (k, s)) ls) = [s]"
  by (induction ls) (auto simp: calls_of_def filter_empty_conv)

lemma setState_keeps_listeners: "listeners (snd (setState s cm)) = listeners cm"
  by (simp add: setState_def Let_def)

lemma setState_sets_state: "state (snd (setState s cm)) = s"
  by (simp add: setState_def Let_def)

lemma setState_calls:
  assumes "l \<in> set (listeners cm)" and "distinct (listeners cm)"
  shows "calls_of l (fst (setState s cm)) = (if state cm \<noteq> s then [s] else [])"
proof (cases "state cm = s")
  case True
  then show ?thesis by (simp add: setState_def calls_of_def)
next
  case False
  then show ?thesis
    using assms by (simp add: setState_def Let_def notifyListeners_def calls_of_one_round)
qed

text \<open>
  Claim C7. Let \<open>l\<close> be a registered listener of a state machine (whose listeners,
  held in a \<open>Set\<close>, are pairwise different) and \<open>ss\<close> any finite sequence of
  arguments of \<open>setState\<close> calls. The list \<open>remdups_adj (state cm # ss)\<close> is
  the start state followed by exactly those arguments that differ from the state current
  at their call (an argument equal to the current state is dropped, and the current state
  after any call is that call's argument). So the states \<open>l\<close> is called with are, in
  order, exactly the arguments that differed from the current state, once each, and
  afterwards \<open>getState\<close> is the last argument, or the start state when there was no call;
  a new state machine starts in \<open>Disconnected\<close>.
\<close>

theorem setState_notifies_once_per_change:
  assumes "l \<in> set (listeners cm)" and "distinct (listeners cm)"
  shows "calls_of l (fst (setStates ss cm)) = tl (remdups_adj (state cm # ss))
       \<and> length (calls_of l (fst (setStates ss cm))) = length (remdups_adj (state cm # ss)) - 1
       \<and> getState (snd (setStates ss cm)) = last (state cm # ss)
       \<and> getState (ClientConnectionManager_new n) = Disconnected"
  using assms
proof (induction ss arbitrary: cm)
  case Nil
  show ?case by (simp add: calls_of_def getState_def ClientConnectionManager_new_def)
next
  case (Cons s ss)
  let ?cm1 = "snd (setState s cm)"
  have l1: "l \<in> set (listeners ?cm1)" and d1: "distinct (listeners ?cm1)"
    using Cons.prems by (simp_all add: setState_keeps_listeners)
  have ih: "calls_of l (fst (setStates ss ?cm1)) = tl (remdups_adj (s # ss))
       \<and> getState (snd (setStates ss ?cm1)) = last (s # ss)"
    using Cons.IH [OF l1 d1] by (simp add: setState_sets_state)
  have first: "calls_of l (fst (setState s cm)) = (if state cm \<noteq> s then [s] else [])"
    using Cons.prems by (rule setState_calls)
  have "calls_of l (fst (setStates (s # ss) cm)) = tl (remdups_adj (state cm # s # ss))
       \<and> getState (snd (setStates (s # ss) cm)) = last (state cm # s # ss)"
    using ih first by (simp add: split_def Let_def calls_of_append)
  then show ?case
    by (simp add: getState_def ClientConnectionManager_new_def)
qed

theorem setState_notifies_once_per_change_witness:
  "(7::nat) \<in> set (listeners (onStateChange 7 (ClientConnectionManager_new 5)))
   \<and> distinct (listeners (onStateChange 7 (ClientConnectionManager_new 5)))
   \<and> calls_of 7 (fst (setStates
        [Connecting, Connecting, Connected, Disconnected, Disconnected, Error]
        (onStateChange 7 (ClientConnectionManager_new 5))))
      = [Connecting, Connected, Disconnected, Error]
   \<and> getState (snd (setStates
        [Connecting, Connecting, Connected, Disconnected, Disconnected, Error]
        (onStateChange 7 (ClientConnectionManager_new 5))))
      = Error"
proof -
  have h1: "(7::nat) \<in> set (listeners (onStateChange 7 (ClientConnectionManager_new 5)))"
    by (simp add: onStateChange_def ClientConnectionManager_new_def)
  have h2: "distinct (listeners (onStateChange 7 (ClientConnectionManager_new 5)))"
    by (simp add: onStateChange_def ClientConnectionManager_new_def)
  have s0: "state (onStateChange 7 (ClientConnectionManager_new 5)) = Disconnected"
    by (simp add: onStateChange_def ClientConnectionManager_new_def)
  show ?thesis
    using h1 h2 s0
      setState_notifies_once_per_change [OF h1 h2,
        of "[Connecting, Connecting, Connected, Disconnected, Disconnected, Error]" 5]
    by simp
qed

section \<open>Reconnection: the delay and the attempt cap\<close>

lemma timers_set_append: "timers_set (xs @ ys) = timers_set xs @ timers_set ys"
  by (induction xs rule: timers_set.induct) simp_all

lemma timers_set_notified: "timers_set (notified calls) = []"
  by (induction calls) (auto simp: notified_def)

lemma timers_set_cleared:
  "timers_set (case t of None \<Rightarrow> [] | Some x \<Rightarrow> [ClearTimeout x]) = []"
  by (cases t) simp_all

text \<open>
  Claim C8. Every call of \<open>scheduleReconnect\<close> arms exactly one timer; its delay is the
  configured \<open>reconnectionDelay\<close> times the attempt number just reached by incrementing
  the counter, and that number is the counter's new value. With the default base of
  1000 ms, the first three failed attempts arm timers of 1000, 2000 and 3000 ms.
\<close>

theorem scheduleReconnect_delay_linear:
  "timers_set (fst (scheduleReconnect c)) =
     [\<lparr>attempt = reconnectAttempts (connectionManager c) + 1,
       delay = reconnectionDelay (config c) * (reconnectAttempts (connectionManager c) + 1)\<rparr>]
   \<and> reconnectTimer (snd (scheduleReconnect c)) =
     Some \<lparr>attempt = reconnectAttempts (connectionManager c) + 1,
           delay = reconnectionDelay (config c) * (reconnectAttempts (connectionManager c) + 1)\<rparr>
   \<and> getReconnectAttempts (connectionManager (snd (scheduleReconnect c))) =
     reconnectAttempts (connectionManager c) + 1
   \<and> map delay (timers_set (fst (client_run
        [TransportConnectError ''refused'', TimerFired,
         TransportConnectError ''refused'', TimerFired,
         TransportConnectError ''refused'']
        (snd (SocketClient_new defaultClientConfig))))) = [1000, 2000, 3000]"
proof -
  have armed: "timers_set (fst (scheduleReconnect c)) =
     [\<lparr>attempt = reconnectAttempts (connectionManager c) + 1,
       delay = reconnectionDelay (config c) * (reconnectAttempts (connectionManager c) + 1)\<rparr>]"
    by (simp add: scheduleReconnect_def incrementReconnectAttempts_def Let_def split_def
        timers_set_append timers_set_notified timers_set_cleared)
  have kept: "reconnectTimer (snd (scheduleReconnect c)) =
     Some \<lparr>attempt = reconnectAttempts (connectionManager c) + 1,
           delay = reconnectionDelay (config c) * (reconnectAttempts (connectionManager c) + 1)\<rparr>"
    by (simp add: scheduleReconnect_def incrementReconnectAttempts_def Let_def split_def)
  have counter: "getReconnectAttempts (connectionManager (snd (scheduleReconnect c))) =
     reconnectAttempts (connectionManager c) + 1"
    by (simp add: scheduleReconnect_def incrementReconnectAttempts_def Let_def split_def
        setState_def getReconnectAttempts_def)
  have example: "map delay (timers_set (fst (client_run
        [TransportConnectError ''refused'', TimerFired,
         TransportConnectError ''refused'', TimerFired,
         TransportConnectError ''refused'']
        (snd (SocketClient_new defaultClientConfig))))) = [1000, 2000, 3000]"
    by code_simp
  show ?thesis
    using armed kept counter example by blast
qed

text \<open>
  The two transport listeners differ: on \<open>disconnect\<close> no timer is armed once the
  attempts are used up, on \<open>connect_error\<close> one timer is armed whenever reconnection
  is enabled.
\<close>

lemma disconnect_respects_attempt_cap:
  "\<not> canReconnect (connectionManager c) \<Longrightarrow> timers_set (fst (on_disconnect reason c)) = []"
  by (simp add: on_disconnect_def shouldReconnect_def canReconnect_def setState_def Let_def
      split_def timers_set_append timers_set_notified)

lemma connect_error_always_schedules:
  "reconnection (config c) \<Longrightarrow>
   timers_set (fst (on_connect_error err c)) =
     [\<lparr>attempt = reconnectAttempts (connectionManager c) + 1,
       delay = reconnectionDelay (config c) * (reconnectAttempts (connectionManager c) + 1)\<rparr>]"
  by (simp add: on_connect_error_def scheduleReconnect_def incrementReconnectAttempts_def
      setState_def Let_def split_def timers_set_append timers_set_notified timers_set_cleared)

text \<open>
  Claim C1, at a failing input. The default client (at most 5 attempts, base delay
  1000 ms) has failed to connect five times, so its counter has reached the maximum and
  \<open>canReconnect\<close> is false. A disconnect with a reason that is not client-initiated then
  arms no timer. A further \<open>connect_error\<close> arms a sixth timer all the same: its listener
  calls \<open>scheduleReconnect\<close> without asking \<open>canReconnect\<close>.
\<close>

theorem connect_error_ignores_attempt_cap:
  "getReconnectAttempts (connectionManager exhausted_client) = 5
   \<and> maxReconnectAttempts (connectionManager exhausted_client) = 5
   \<and> \<not> canReconnect (connectionManager exhausted_client)
   \<and> timers_set (fst (client_step (TransportDisconnect ''transport close'') exhausted_client)) = []
   \<and> timers_set (fst (client_step (TransportConnectError ''refused'') exhausted_client))
       = [\<lparr>attempt = 6, delay = 6000\<rparr>]"
  by code_simp

section \<open>The server registry\<close>

lemmas registry_defs =
  registry_run_def addConnection_def authenticateConnection_def removeConnection_def
  ConnectionManager_new_def Connection_new_def authenticate_def getSocketId_def getUserId_def
  two_sessions_def user_of_def isUserOnline_def getConnectionByUserId_def getConnection_def
  isAuth_def getUser_def

text \<open>
  R1 is kept by every orderly sequence of registry operations: sessions are added new,
  user ids are not empty, and no session is authenticated again under another user id.
\<close>

lemma R1_step_add:
  assumes "R1 cm" "named_users cm" "first_authentication (AddConnection c) cm"
  shows "R1 (addConnection c cm) \<and> named_users (addConnection c cm)"
proof -
  have fresh: "connections cm (getSocketId c) = None" and nouser: "user c = None"
    using assms(3) by simp_all
  have r: "R1 (addConnection c cm)"
    unfolding R1_def
  proof (intro allI impI)
    fix w s
    assume "userSockets (addConnection c cm) w = Some s"
    then have "userSockets cm w = Some s"
      by (simp add: addConnection_def)
    then obtain c' u' where o: "connections cm s = Some c'" "user c' = Some u'" "id' u' = w"
      using assms(1) unfolding R1_def by blast
    then have "s \<noteq> getSocketId c"
      using fresh by auto
    then show "\<exists>c' u'. connections (addConnection c cm) s = Some c' \<and> user c' = Some u' \<and> id' u' = w"
      using o by (simp add: addConnection_def)
  qed
  have n: "named_users (addConnection c cm)"
    using assms(2) nouser unfolding named_users_def
    by (auto simp: addConnection_def split: if_splits)
  show ?thesis using r n by simp
qed

lemma R1_step_authenticate:
  assumes "R1 cm" "named_users cm" "first_authentication (AuthenticateConnection sid u) cm"
  shows "R1 (authenticateConnection sid u cm) \<and> named_users (authenticateConnection sid u cm)"
proof (cases "connections cm sid")
  case None
  then show ?thesis using assms by (simp add: authenticateConnection_def)
next
  case (Some c)
  have same: "user c = None \<or> (\<exists>v. user c = Some v \<and> id' v = id' u)"
    using assms(3) Some by (auto split: option.splits)
  have ne: "id' u \<noteq> []" using assms(3) by simp
  have r: "R1 (authenticateConnection sid u cm)"
    unfolding R1_def
  proof (intro allI impI)
    fix w s
    assume e: "userSockets (authenticateConnection sid u cm) w = Some s"
    show "\<exists>c' u'. connections (authenticateConnection sid u cm) s = Some c' \<and> user c' = Some u' \<and> id' u' = w"
    proof (cases "w = id' u")
      case True
      then show ?thesis using e Some by (simp add: authenticateConnection_def authenticate_def)
    next
      case False
      then have old: "userSockets cm w = Some s"
        using e Some by (simp add: authenticateConnection_def)
      then obtain c' u' where o: "connections cm s = Some c'" "user c' = Some u'" "id' u' = w"
        using assms(1) unfolding R1_def by blast
      have "s \<noteq> sid"
      proof
        assume "s = sid"
        then have "c' = c" using o(1) Some by simp
        then show False using same o(2,3) False by auto
      qed
      then show ?thesis using o Some by (simp add: authenticateConnection_def)
    qed
  qed
  have n: "named_users (authenticateConnection sid u cm)"
    using assms(2) Some ne unfolding named_users_def
    by (auto simp: authenticateConnection_def authenticate_def split: if_splits)
  show ?thesis using r n by simp
qed

lemma R1_step_remove:
  assumes "R1 cm" "named_users cm"
  shows "R1 (removeConnection sid cm) \<and> named_users (removeConnection sid cm)"
proof (cases "connections cm sid")
  case None
  then show ?thesis using assms by (simp add: removeConnection_def)
next
  case (Some c)
  have n: "named_users (removeConnection sid cm)"
    using assms(2) Some unfolding named_users_def
    by (auto simp: removeConnection_def Let_def split: if_splits option.splits)
  have r: "R1 (removeConnection sid cm)"
    unfolding R1_def
  proof (intro allI impI)
    fix w s
    assume e: "userSockets (removeConnection sid cm) w = Some s"
    have old: "userSockets cm w = Some s"
      using e Some by (auto simp: removeConnection_def Let_def split: option.splits if_splits)
    then obtain c' u' where o: "connections cm s = Some c'" "user c' = Some u'" "id' u' = w"
      using assms(1) unfolding R1_def by blast
    have "s \<noteq> sid"
    proof
      assume "s = sid"
      then have cc: "c' = c" using o(1) Some by simp
      have "id' u' \<noteq> []" using assms(2) o(1,2) unfolding named_users_def by blast
      then have "getUserId c = Some w" using cc o(2,3) by (simp add: getUserId_def)
      then have "userSockets (removeConnection sid cm) w = None"
        using Some by (simp add: removeConnection_def)
      then show False using e by simp
    qed
    then show "\<exists>c' u'. connections (removeConnection sid cm) s = Some c' \<and> user c' = Some u' \<and> id' u' = w"
      using o Some by (simp add: removeConnection_def Let_def)
  qed
  show ?thesis using r n by simp
qed

lemma R1_preserved_without_reauthentication:
  "R1 cm \<Longrightarrow> named_users cm \<Longrightarrow> orderly ops cm \<Longrightarrow>
   R1 (registry_run ops cm) \<and> named_users (registry_run ops cm)"
proof (induction ops arbitrary: cm)
  case Nil
  then show ?case by (simp add: registry_run_def)
next
  case (Cons operation ops)
  have "R1 (registry_step operation cm) \<and> named_users (registry_step operation cm)"
    using Cons.prems R1_step_add R1_step_authenticate R1_step_remove by (cases operation) simp_all
  then show ?case
    using Cons.IH [of "registry_step operation cm"] Cons.prems(3) by (simp add: registry_run_def)
qed

text \<open>
  Claim C2, at a failing input. A session connects, authenticates as alice and then
  authenticates again as bob. Before the second authentication R1 holds. After it the
  user map still has the entry \<open>alice \<mapsto> s1\<close>, while the session at \<open>s1\<close> now
  belongs to bob: \<open>authenticateConnection\<close> installs the new entry and leaves the
  session's old one in place, so R1 is broken, and a lookup of alice finds bob's session.
\<close>

theorem reauthentication_breaks_R1:
  "R1 (registry_run
        [AddConnection (Connection_new ''s1''),
         AuthenticateConnection ''s1'' (user_of ''alice'')]
        ConnectionManager_new)
   \<and> userSockets reauthenticated ''alice'' = Some ''s1''
   \<and> map_option getUserId (getConnection ''s1'' reauthenticated) = Some (Some ''bob'')
   \<and> map_option getUserId (getConnectionByUserId ''alice'' reauthenticated) = Some (Some ''bob'')
   \<and> \<not> R1 reauthenticated"
proof -
  have before: "R1 (registry_run
        [AddConnection (Connection_new ''s1''),
         AuthenticateConnection ''s1'' (user_of ''alice'')]
        ConnectionManager_new)"
    by (simp add: R1_def registry_defs)
  have entry: "userSockets reauthenticated ''alice'' = Some ''s1''"
    by (simp add: reauthenticated_def registry_defs)
  have owner: "map_option getUserId (getConnection ''s1'' reauthenticated) = Some (Some ''bob'')"
    by (simp add: reauthenticated_def registry_defs)
  have found: "map_option getUserId (getConnectionByUserId ''alice'' reauthenticated)
      = Some (Some ''bob'')"
    by (simp add: reauthenticated_def registry_defs)
  have session: "map_option (map_option id' \<circ> user) (connections reauthenticated ''s1'')
      = Some (Some ''bob'')"
    by (simp add: reauthenticated_def registry_defs)
  have broken: "\<not> R1 reauthenticated"
  proof
    assume "R1 reauthenticated"
    then obtain c u where "connections reauthenticated ''s1'' = Some c"
      and "user c = Some u" and "id' u = ''alice''"
      using entry unfolding R1_def by blast
    then show False
      using session by simp
  qed
  show ?thesis
    using before entry owner found broken by (intro conjI)
qed

theorem reauthentication_breaks_R1_witness:
  "userSockets reauthenticated ''alice'' = Some ''s1'' \<and> \<not> R1 reauthenticated"
  using reauthentication_breaks_R1 by simp

text \<open>
  Claim C5 as stated fails at two inputs. With \<open>s1\<close> and \<open>s2\<close> both registered
  and a user whose id is the empty string, \<open>removeConnection\<close> reads the removed
  session's user id as absent and deletes nothing from the user map, so the user is still
  online. And in a registry where \<open>s1\<close> was never registered, authenticating and
  removing \<open>s1\<close> do nothing, so alice stays online on \<open>s2\<close>.
\<close>

theorem removal_keeps_user_entry_counterexample:
  "isUserOnline (id' (user_of ''''))
     (registry_run
        [AuthenticateConnection ''s1'' (user_of ''''),
         AuthenticateConnection ''s2'' (user_of ''''),
         RemoveConnection ''s1'']
        two_sessions)
   \<and> isUserOnline (id' (user_of ''alice''))
     (registry_run
        [AuthenticateConnection ''s1'' (user_of ''alice''),
         AuthenticateConnection ''s2'' (user_of ''alice''),
         RemoveConnection ''s1'']
        (registry_run [AddConnection (Connection_new ''s2'')] ConnectionManager_new))"
  by (simp add: registry_defs)

text \<open>
  Claim C5, amended. In every registry in which the distinct sessions \<open>a\<close> and \<open>b\<close> are
  both registered, and for every user \<open>u\<close> whose id is not empty: after
  \<open>authenticateConnection(a, u)\<close>, \<open>authenticateConnection(b, u)\<close> and
  \<open>removeConnection(a)\<close> the user map has no entry for \<open>u\<close>'s id, so \<open>isUserOnline\<close>
  is false and \<open>getConnectionByUserId\<close> is undefined, although session \<open>b\<close> is still
  registered and authenticated as \<open>u\<close>.
\<close>

theorem removal_deletes_shared_user_entry:
  assumes "a \<noteq> b" and "connections cm a \<noteq> None" and "connections cm b \<noteq> None"
    and "id' u \<noteq> []"
  shows "userSockets (registry_run
            [AuthenticateConnection a u, AuthenticateConnection b u, RemoveConnection a] cm)
           (id' u) = None
       \<and> \<not> isUserOnline (id' u) (registry_run
            [AuthenticateConnection a u, AuthenticateConnection b u, RemoveConnection a] cm)
       \<and> getConnectionByUserId (id' u) (registry_run
            [AuthenticateConnection a u, AuthenticateConnection b u, RemoveConnection a] cm) = None
       \<and> map_option isAuth (getConnection b (registry_run
            [AuthenticateConnection a u, AuthenticateConnection b u, RemoveConnection a] cm))
           = Some True
       \<and> map_option getUser (getConnection b (registry_run
            [AuthenticateConnection a u, AuthenticateConnection b u, RemoveConnection a] cm))
           = Some (Some u)"
proof -
  obtain ca cb where ca: "connections cm a = Some ca" and cb: "connections cm b = Some cb"
    using assms by auto
  let ?cm1 = "authenticateConnection a u cm"
  let ?cm2 = "authenticateConnection b u ?cm1"
  let ?cm3 = "removeConnection a ?cm2"
  have run: "registry_run
      [AuthenticateConnection a u, AuthenticateConnection b u, RemoveConnection a] cm = ?cm3"
    by (simp add: registry_run_def)
  have c1: "connections ?cm1 = (connections cm)(a \<mapsto> authenticate u ca)"
    and u1: "userSockets ?cm1 = (userSockets cm)(id' u \<mapsto> a)"
    using ca by (simp_all add: authenticateConnection_def)
  have c2: "connections ?cm2 =
      (connections cm)(a \<mapsto> authenticate u ca, b \<mapsto> authenticate u cb)"
    and u2: "userSockets ?cm2 = (userSockets cm)(id' u \<mapsto> b)"
    using c1 u1 cb assms(1) by (simp_all add: authenticateConnection_def)
  have at_a: "connections ?cm2 a = Some (authenticate u ca)"
    using c2 assms(1) by simp
  have uid_a: "getUserId (authenticate u ca) = Some (id' u)"
    using assms(4) by (simp add: getUserId_def authenticate_def)
  have c3: "connections ?cm3 = (connections ?cm2)(a := None)"
    and u3: "userSockets ?cm3 = (userSockets ?cm2)(id' u := None)"
    using at_a uid_a by (simp_all add: removeConnection_def)
  have gone: "userSockets ?cm3 (id' u) = None"
    using u3 by simp
  have kept: "connections ?cm3 b = Some (authenticate u cb)"
    using c3 c2 assms(1) by simp
  show ?thesis
    unfolding run using gone kept
    by (simp add: isUserOnline_def getConnectionByUserId_def getConnection_def isAuth_def
        getUser_def authenticate_def)
qed

theorem removal_deletes_shared_user_entry_witness:
  "''s1'' \<noteq> ''s2''
   \<and> connections two_sessions ''s1'' \<noteq> None
   \<and> connections two_sessions ''s2'' \<noteq> None
   \<and> id' (user_of ''alice'') \<noteq> []
   \<and> \<not> isUserOnline ''alice'' (registry_run
        [AuthenticateConnection ''s1'' (user_of ''alice''),
         AuthenticateConnection ''s2'' (user_of ''alice''),
         RemoveConnection ''s1''] two_sessions)
   \<and> getConnectionByUserId ''alice'' (registry_run
        [AuthenticateConnection ''s1'' (user_of ''alice''),
         AuthenticateConnection ''s2'' (user_of ''alice''),
         RemoveConnection ''s1''] two_sessions) = None
   \<and> map_option isAuth (getConnection ''s2'' (registry_run
        [AuthenticateConnection ''s1'' (user_of ''alice''),
         AuthenticateConnection ''s2'' (user_of ''alice''),
         RemoveConnection ''s1''] two_sessions)) = Some True"
proof -
  have h1: "''s1'' \<noteq> ''s2''"
    by simp
  have h2: "connections two_sessions ''s1'' \<noteq> None"
    by (simp add: registry_defs)
  have h3: "connections two_sessions ''s2'' \<noteq> None"
    by (simp add: registry_defs)
  have h4: "id' (user_of ''alice'') \<noteq> []"
    by (simp add: user_of_def)
  have h5: "id' (user_of ''alice'') = ''alice''"
    by (simp add: user_of_def)
  show ?thesis
    using h1 h2 h3 h4 removal_deletes_shared_user_entry [OF h1 h2 h3 h4]
    unfolding h5 by blast
qed

lemma status_fold:
  "foldl (\<lambda>statuses uid. assign_property uid (isUserOnline uid cm) statuses) m uids =
     (\<lambda>uid. if uid \<in> set uids \<and> uid \<noteq> ''__proto__''
            then Some (isUserOnline uid cm) else m uid)"
  by (induction uids arbitrary: m) (auto simp: fun_eq_iff assign_property_def)

lemma getUsersOnlineStatus_eq:
  "getUsersOnlineStatus uids cm =
     (\<lambda>uid. if uid \<in> set uids \<and> uid \<noteq> ''__proto__''
            then Some (isUserOnline uid cm) else None)"
  by (simp add: getUsersOnlineStatus_def status_fold)

text \<open>
  For requested ids other than \<open>__proto__\<close> the batch status is as specified: the keys
  of the result are exactly the requested ids, each mapped to whether the id has an entry
  in the user map, whatever the order of the list.
\<close>

lemma getUsersOnlineStatus_ordinary_ids:
  assumes "''__proto__'' \<notin> set uids"
  shows "dom (getUsersOnlineStatus uids cm) = set uids
       \<and> (\<forall>uid \<in> set uids. getUsersOnlineStatus uids cm uid = Some (userSockets cm uid \<noteq> None))
       \<and> (\<forall>uids'. set uids' = set uids \<longrightarrow>
            getUsersOnlineStatus uids' cm = getUsersOnlineStatus uids cm)"
proof -
  have keys: "dom (getUsersOnlineStatus uids cm) = set uids"
    using assms by (auto simp: getUsersOnlineStatus_eq dom_def)
  have vals: "\<forall>uid \<in> set uids. getUsersOnlineStatus uids cm uid = Some (userSockets cm uid \<noteq> None)"
    using assms by (auto simp: getUsersOnlineStatus_eq isUserOnline_def)
  have perm: "\<forall>uids'. set uids' = set uids \<longrightarrow>
      getUsersOnlineStatus uids' cm = getUsersOnlineStatus uids cm"
    by (simp add: getUsersOnlineStatus_eq)
  show ?thesis
    using keys vals perm by (intro conjI)
qed

lemma getUsersOnlineStatus_example:
  "getUsersOnlineStatus [''a'', ''b''] only_a_online ''a'' = Some True
   \<and> getUsersOnlineStatus [''a'', ''b''] only_a_online ''b'' = Some False
   \<and> getUsersOnlineStatus [''b'', ''a''] only_a_online
       = getUsersOnlineStatus [''a'', ''b''] only_a_online"
proof -
  have free: "''__proto__'' \<notin> set [''a'', ''b'']"
    by simp
  note T = getUsersOnlineStatus_ordinary_ids [OF free, of only_a_online]
  have on: "userSockets only_a_online ''a'' \<noteq> None"
    by (simp add: only_a_online_def registry_defs)
  have off: "userSockets only_a_online ''b'' = None"
    by (simp add: only_a_online_def registry_defs)
  have ina: "''a'' \<in> set [''a'', ''b'']" and inb: "''b'' \<in> set [''a'', ''b'']"
    by simp_all
  have same: "set [''b'', ''a''] = set [''a'', ''b'']"
    by (simp add: insert_commute)
  have va: "getUsersOnlineStatus [''a'', ''b''] only_a_online ''a'' = Some True"
    using T [THEN conjunct2, THEN conjunct1, rule_format, OF ina] on by simp
  have vb: "getUsersOnlineStatus [''a'', ''b''] only_a_online ''b'' = Some False"
    using T [THEN conjunct2, THEN conjunct1, rule_format, OF inb] off by simp
  have perm: "getUsersOnlineStatus [''b'', ''a''] only_a_online
      = getUsersOnlineStatus [''a'', ''b''] only_a_online"
    using T [THEN conjunct2, THEN conjunct2, rule_format, OF same] .
  show ?thesis
    using va vb perm by (intro conjI)
qed

text \<open>
  Claim C9, at a failing input. The claim says that for every list of requested user ids
  the result has exactly the requested ids as keys, each mapped to whether the id has an
  entry in the user map. With only the user \<open>a\<close> online, a request for the ids
  \<open>__proto__\<close> and \<open>a\<close> is answered with an object whose only key is \<open>a\<close>: the
  requested id \<open>__proto__\<close>, which is not online and should be mapped to false, is
  missing from the result.
\<close>

theorem getUsersOnlineStatus_drops_proto:
  "getUsersOnlineStatus [''__proto__'', ''a''] only_a_online ''__proto__'' = None
   \<and> getUsersOnlineStatus [''__proto__'', ''a''] only_a_online ''a'' = Some True
   \<and> dom (getUsersOnlineStatus [''__proto__'', ''a''] only_a_online) = {''a''}
   \<and> dom (getUsersOnlineStatus [''__proto__'', ''a''] only_a_online)
       \<noteq> set [''__proto__'', ''a'']
   \<and> isUserOnline ''__proto__'' only_a_online = False"
proof -
  have on: "isUserOnline ''a'' only_a_online"
    by (simp add: only_a_online_def registry_defs)
  have off: "\<not> isUserOnline ''__proto__'' only_a_online"
    by (simp add: only_a_online_def registry_defs)
  have missing: "getUsersOnlineStatus [''__proto__'', ''a''] only_a_online ''__proto__'' = None"
    by (simp add: getUsersOnlineStatus_eq)
  have present: "getUsersOnlineStatus [''__proto__'', ''a''] only_a_online ''a'' = Some True"
    using on by (simp add: getUsersOnlineStatus_eq)
  have keys: "dom (getUsersOnlineStatus [''__proto__'', ''a''] only_a_online) = {''a''}"
    by (auto simp: getUsersOnlineStatus_eq dom_def)
  have differ: "dom (getUsersOnlineStatus [''__proto__'', ''a''] only_a_online)
      \<noteq> set [''__proto__'', ''a'']"
    unfolding keys by auto
  show ?thesis
    using missing present keys differ off by (intro conjI) simp_all
qed

section \<open>The protocol handlers\<close>

lemma alice_session:
  "getConnection ''s1'' alice_and_bob =
     Some \<lparr>socket_id = ''s1'', user = Some (user_of ''alice''), isAuthenticated_flag = True\<rparr>"
  by (simp add: alice_and_bob_def registry_defs)

lemma bob_session:
  "getConnectionByUserId ''bob'' alice_and_bob =
     Some \<lparr>socket_id = ''s2'', user = Some (user_of ''bob''), isAuthenticated_flag = True\<rparr>"
  by (simp add: alice_and_bob_def registry_defs)

lemma getUserId_nonempty:
  "getUser c = Some u \<Longrightarrow> id' u \<noteq> [] \<Longrightarrow> getUserId c = Some (id' u)"
  by (simp add: getUserId_def getUser_def)

lemma not_online_unresolved: "\<not> isUserOnline r cm \<Longrightarrow> getConnectionByUserId r cm = None"
  by (simp add: isUserOnline_def getConnectionByUserId_def)

text \<open>
  Claim C3 as stated fails: the sender's session \<open>s1\<close> is registered and authenticated,
  and the recipient bob is in the registry, on session \<open>s2\<close>; but the sender's user id is
  the empty string, which \<open>getUserId\<close> reports as absent, and the handler answers with
  the error \<open>Invalid user\<close> and delivers nothing.
\<close>

theorem send_message_empty_sender_id_counterexample:
  "map_option isAuth (getConnection ''s1'' nameless_and_bob) = Some True
   \<and> isUserOnline ''bob'' nameless_and_bob
   \<and> map_option getSocketId (getConnectionByUserId ''bob'' nameless_and_bob) = Some ''s2''
   \<and> send_message_handler ''s1'' ''m1'' 42
         \<lparr>p_to = ''bob'', p_content = ''hi'', p_metadata = None\<rparr> nameless_and_bob
       = [Emit ''s1'' MESSAGE_ERROR (MessageErrorPayload None ''Invalid user'')]"
  by (simp add: send_message_handler_def nameless_and_bob_def registry_defs)

text \<open>
  Claim C3, amended. For every \<open>send_message\<close> request on a session that is registered
  and authenticated as a user whose id is not empty, and whose recipient id the registry
  resolves to a session (\<open>getConnectionByUserId\<close>), the handler emits exactly two
  events: one \<open>receive_message\<close> on the recipient's socket carrying the sender's user id,
  the content, the time of processing, the generated message id and the metadata, and
  then one \<open>message_delivered\<close> on the sender's socket carrying the same message id.
\<close>

theorem send_message_delivers:
  assumes "getConnection sid cm = Some c" and "isAuth c"
    and "getUser c = Some u" and "id' u \<noteq> []"
    and "getConnectionByUserId (p_to p) cm = Some rc"
  shows "send_message_handler sid uuid now p cm =
           [Emit (getSocketId rc) RECEIVE_MESSAGE
              (ReceiveMessagePayload (id' u) (p_content p) now uuid (p_metadata p)),
            Emit sid MESSAGE_DELIVERED (MessageDeliveredPayload uuid)]"
proof -
  have "getUserId c = Some (id' u)"
    using assms(3,4) by (rule getUserId_nonempty)
  then show ?thesis
    using assms(1,2,5) by (simp add: send_message_handler_def)
qed

theorem send_message_delivers_witness:
  "send_message_handler ''s1'' ''m1'' 42
       \<lparr>p_to = ''bob'', p_content = ''hi'', p_metadata = None\<rparr> alice_and_bob
     = [Emit ''s2'' RECEIVE_MESSAGE (ReceiveMessagePayload ''alice'' ''hi'' 42 ''m1'' None),
        Emit ''s1'' MESSAGE_DELIVERED (MessageDeliveredPayload ''m1'')]"
proof -
  let ?c = "\<lparr>socket_id = ''s1'', user = Some (user_of ''alice''), isAuthenticated_flag = True\<rparr>"
  let ?rc = "\<lparr>socket_id = ''s2'', user = Some (user_of ''bob''), isAuthenticated_flag = True\<rparr>"
  let ?p = "\<lparr>p_to = ''bob'', p_content = ''hi'', p_metadata = None\<rparr>"
  have h2: "isAuth ?c"
    by (simp add: isAuth_def)
  have h3: "getUser ?c = Some (user_of ''alice'')"
    by (simp add: getUser_def)
  have h4: "id' (user_of ''alice'') \<noteq> []"
    by (simp add: user_of_def)
  have h5: "getConnectionByUserId (p_to ?p) alice_and_bob = Some ?rc"
    using bob_session by simp
  show ?thesis
    using send_message_delivers [OF alice_session h2 h3 h4 h5, of "''m1''" 42]
    by (simp add: getSocketId_def user_of_def)
qed

text \<open>
  Claim C4 as stated fails in its second half: the sender's session \<open>s1\<close> is
  authenticated and the recipient bob is online on \<open>s2\<close>, but the sender's user id is
  the empty string, and both typing handlers emit nothing.
\<close>

theorem typing_empty_sender_id_counterexample:
  "map_option isAuth (getConnection ''s1'' nameless_and_bob) = Some True
   \<and> isUserOnline ''bob'' nameless_and_bob
   \<and> map_option getSocketId (getConnectionByUserId ''bob'' nameless_and_bob) = Some ''s2''
   \<and> typing_start_handler ''s1'' ''bob'' nameless_and_bob = []
   \<and> typing_stop_handler ''s1'' ''bob'' nameless_and_bob = []"
  by (simp add: typing_start_handler_def typing_stop_handler_def nameless_and_bob_def
      registry_defs)

text \<open>
  Claim C4, amended. For every \<open>typing_start\<close> or \<open>typing_stop\<close> request: if the
  sender's session is not registered, or is registered and not authenticated, or the
  recipient id has no entry in the user map or does not resolve to a session, the handler
  emits nothing at all. If the sender's session is registered and authenticated as a user
  whose id is not empty and the recipient id resolves to a session, the handler emits
  exactly one event, the corresponding typing event carrying the sender's user id, on the
  recipient's socket.
\<close>

theorem typing_silent_or_delivered:
  "(getConnection sid cm = None \<or> map_option isAuth (getConnection sid cm) = Some False
      \<or> \<not> isUserOnline r cm \<or> getConnectionByUserId r cm = None
    \<longrightarrow> typing_start_handler sid r cm = [] \<and> typing_stop_handler sid r cm = [])
   \<and> (getConnection sid cm = Some c \<and> isAuth c \<and> getUser c = Some u \<and> id' u \<noteq> []
        \<and> getConnectionByUserId r cm = Some rc
    \<longrightarrow> typing_start_handler sid r cm =
          [Emit (getSocketId rc) TYPING_START (TypingPayload (id' u))]
      \<and> typing_stop_handler sid r cm =
          [Emit (getSocketId rc) TYPING_STOP (TypingPayload (id' u))])"
proof (intro conjI impI)
  assume silent: "getConnection sid cm = None
      \<or> map_option isAuth (getConnection sid cm) = Some False
      \<or> \<not> isUserOnline r cm \<or> getConnectionByUserId r cm = None"
  then consider "getConnection sid cm = None"
    | c' where "getConnection sid cm = Some c'" and "\<not> isAuth c'"
    | "getConnectionByUserId r cm = None"
    using not_online_unresolved by fastforce
  then have "typing_start_handler sid r cm = [] \<and> typing_stop_handler sid r cm = []"
  proof cases
    case 1
    then show ?thesis
      by (simp add: typing_start_handler_def typing_stop_handler_def)
  next
    case 2
    then show ?thesis
      by (simp add: typing_start_handler_def typing_stop_handler_def)
  next
    case 3
    then show ?thesis
      by (simp add: typing_start_handler_def typing_stop_handler_def split: option.splits)
  qed
  then show "typing_start_handler sid r cm = []" and "typing_stop_handler sid r cm = []"
    by simp_all
next
  assume ok: "getConnection sid cm = Some c \<and> isAuth c \<and> getUser c = Some u \<and> id' u \<noteq> []
      \<and> getConnectionByUserId r cm = Some rc"
  then have "getUserId c = Some (id' u)"
    by (simp add: getUserId_nonempty)
  with ok show "typing_start_handler sid r cm =
      [Emit (getSocketId rc) TYPING_START (TypingPayload (id' u))]"
    and "typing_stop_handler sid r cm =
      [Emit (getSocketId rc) TYPING_STOP (TypingPayload (id' u))]"
    by (simp_all add: typing_start_handler_def typing_stop_handler_def)
qed

theorem typing_silent_or_delivered_witness:
  "typing_start_handler ''s1'' ''bob'' alice_and_bob
     = [Emit ''s2'' TYPING_START (TypingPayload ''alice'')]
   \<and> typing_stop_handler ''s1'' ''bob'' alice_and_bob
     = [Emit ''s2'' TYPING_STOP (TypingPayload ''alice'')]
   \<and> typing_start_handler ''s3'' ''bob'' alice_and_bob = []
   \<and> typing_stop_handler ''s3'' ''bob'' alice_and_bob = []
   \<and> typing_start_handler ''s1'' ''carol'' alice_and_bob = []
   \<and> typing_stop_handler ''s1'' ''carol'' alice_and_bob = []"
proof -
  let ?c = "\<lparr>socket_id = ''s1'', user = Some (user_of ''alice''), isAuthenticated_flag = True\<rparr>"
  let ?rc = "\<lparr>socket_id = ''s2'', user = Some (user_of ''bob''), isAuthenticated_flag = True\<rparr>"
  have ok: "getConnection ''s1'' alice_and_bob = Some ?c \<and> isAuth ?c
      \<and> getUser ?c = Some (user_of ''alice'') \<and> id' (user_of ''alice'') \<noteq> []
      \<and> getConnectionByUserId ''bob'' alice_and_bob = Some ?rc"
    using alice_session bob_session by (simp add: isAuth_def getUser_def user_of_def)
  have unregistered: "getConnection ''s3'' alice_and_bob = None"
    by (simp add: alice_and_bob_def registry_defs)
  have offline: "\<not> isUserOnline ''carol'' alice_and_bob"
    by (simp add: alice_and_bob_def registry_defs)
  have delivered: "typing_start_handler ''s1'' ''bob'' alice_and_bob
       = [Emit ''s2'' TYPING_START (TypingPayload ''alice'')]
     \<and> typing_stop_handler ''s1'' ''bob'' alice_and_bob
       = [Emit ''s2'' TYPING_STOP (TypingPayload ''alice'')]"
    using typing_silent_or_delivered [THEN conjunct2, rule_format, OF ok]
    by (simp add: getSocketId_def user_of_def)
  have silent1: "typing_start_handler ''s3'' ''bob'' alice_and_bob = []
     \<and> typing_stop_handler ''s3'' ''bob'' alice_and_bob = []"
    using typing_silent_or_delivered
      [THEN conjunct1, rule_format, of "''s3''" alice_and_bob "''bob''"] unregistered
    by simp
  have silent2: "typing_start_handler ''s1'' ''carol'' alice_and_bob = []
     \<and> typing_stop_handler ''s1'' ''carol'' alice_and_bob = []"
    using typing_silent_or_delivered
      [THEN conjunct1, rule_format, of "''s1''" alice_and_bob "''carol''"] offline
    by simp
  show ?thesis
    using delivered silent1 silent2 by simp
qed

text \<open>
  Claim C6. For every \<open>authenticate\<close> request: when the validator resolves to \<open>null\<close>
  the handler emits \<open>auth_error\<close> (invalid token) and then disconnects the socket, and
  returns the registry as it was; when the validator throws it emits the generic
  \<open>auth_error\<close> and then disconnects, and returns the registry as it was; when the
  validator resolves to a user it stamps the socket id and the time onto the user, calls
  \<open>authenticateConnection\<close> with the stamped user and emits \<open>authenticated\<close> with the
  user id and the socket id. Unless the validator resolves to a user, the registry is
  unchanged and no \<open>authenticated\<close> event is emitted.
\<close>

theorem authenticate_handler_outcomes:
  "(authHandler token = Resolves None \<longrightarrow>
      authenticate_handler authHandler sid now token cm =
        ([Emit sid AUTH_ERROR (AuthErrorPayload ''Invalid authentication token''),
          DisconnectSocket sid], cm))
   \<and> (authHandler token = Rejects \<longrightarrow>
      authenticate_handler authHandler sid now token cm =
        ([Emit sid AUTH_ERROR (AuthErrorPayload ''Authentication failed''),
          DisconnectSocket sid], cm))
   \<and> (authHandler token = Resolves (Some u) \<longrightarrow>
      authenticate_handler authHandler sid now token cm =
        ([Emit sid AUTHENTICATED (AuthenticatedPayload (id' u) sid)],
         authenticateConnection sid (u\<lparr>socketId := sid, connectedAt := now\<rparr>) cm))
   \<and> ((\<forall>v. authHandler token \<noteq> Resolves (Some v)) \<longrightarrow>
      snd (authenticate_handler authHandler sid now token cm) = cm
      \<and> (\<forall>pl. Emit sid AUTHENTICATED pl
            \<notin> set (fst (authenticate_handler authHandler sid now token cm))))"
proof (intro conjI impI)
  assume "authHandler token = Resolves None"
  then show "authenticate_handler authHandler sid now token cm =
        ([Emit sid AUTH_ERROR (AuthErrorPayload ''Invalid authentication token''),
          DisconnectSocket sid], cm)"
    by (simp add: authenticate_handler_def)
next
  assume "authHandler token = Rejects"
  then show "authenticate_handler authHandler sid now token cm =
        ([Emit sid AUTH_ERROR (AuthErrorPayload ''Authentication failed''),
          DisconnectSocket sid], cm)"
    by (simp add: authenticate_handler_def)
next
  assume "authHandler token = Resolves (Some u)"
  then show "authenticate_handler authHandler sid now token cm =
        ([Emit sid AUTHENTICATED (AuthenticatedPayload (id' u) sid)],
         authenticateConnection sid (u\<lparr>socketId := sid, connectedAt := now\<rparr>) cm)"
    by (simp add: authenticate_handler_def Let_def)
next
  assume no_user: "\<forall>v. authHandler token \<noteq> Resolves (Some v)"
  then show "snd (authenticate_handler authHandler sid now token cm) = cm"
    by (simp add: authenticate_handler_def split: auth_outcome.splits option.splits)
  from no_user show "\<forall>pl. Emit sid AUTHENTICATED pl
      \<notin> set (fst (authenticate_handler authHandler sid now token cm))"
    by (simp add: authenticate_handler_def split: auth_outcome.splits option.splits)
qed

theorem authenticate_handler_outcomes_witness:
  "authenticate_handler token_validator ''s1'' 42 ''bad'' two_sessions =
        ([Emit ''s1'' AUTH_ERROR (AuthErrorPayload ''Invalid authentication token''),
          DisconnectSocket ''s1''], two_sessions)
   \<and> authenticate_handler token_validator ''s1'' 42 ''boom'' two_sessions =
        ([Emit ''s1'' AUTH_ERROR (AuthErrorPayload ''Authentication failed''),
          DisconnectSocket ''s1''], two_sessions)
   \<and> authenticate_handler token_validator ''s1'' 42 ''t1'' two_sessions =
        ([Emit ''s1'' AUTHENTICATED (AuthenticatedPayload ''alice'' ''s1'')],
         authenticateConnection ''s1''
           \<lparr>id' = ''alice'', socketId = ''s1'', connectedAt = 42, user_metadata = None\<rparr>
           two_sessions)
   \<and> snd (authenticate_handler token_validator ''s1'' 42 ''bad'' two_sessions) = two_sessions"
proof -
  note T = authenticate_handler_outcomes
    [where authHandler = token_validator and sid = "''s1''" and now = 42 and cm = two_sessions]
  have bad: "token_validator ''bad'' = Resolves None"
    by (simp add: token_validator_def)
  have boom: "token_validator ''boom'' = Rejects"
    by (simp add: token_validator_def)
  have good: "token_validator ''t1'' = Resolves (Some (user_of ''alice''))"
    by (simp add: token_validator_def)
  have no_user: "\<forall>v. token_validator ''bad'' \<noteq> Resolves (Some v)"
    by (simp add: bad)
  have a: "authenticate_handler token_validator ''s1'' 42 ''bad'' two_sessions =
        ([Emit ''s1'' AUTH_ERROR (AuthErrorPayload ''Invalid authentication token''),
          DisconnectSocket ''s1''], two_sessions)"
    using T [THEN conjunct1, rule_format, OF bad] .
  have b: "authenticate_handler token_validator ''s1'' 42 ''boom'' two_sessions =
        ([Emit ''s1'' AUTH_ERROR (AuthErrorPayload ''Authentication failed''),
          DisconnectSocket ''s1''], two_sessions)"
    using T [THEN conjunct2, THEN conjunct1, rule_format, OF boom] .
  have c: "authenticate_handler token_validator ''s1'' 42 ''t1'' two_sessions =
        ([Emit ''s1'' AUTHENTICATED (AuthenticatedPayload ''alice'' ''s1'')],
         authenticateConnection ''s1''
           \<lparr>id' = ''alice'', socketId = ''s1'', connectedAt = 42, user_metadata = None\<rparr>
           two_sessions)"
    using T [THEN conjunct2, THEN conjunct2, THEN conjunct1, rule_format, OF good]
    by (simp add: user_of_def)
  have d: "snd (authenticate_handler token_validator ''s1'' 42 ''bad'' two_sessions)
      = two_sessions"
    using T [THEN conjunct2, THEN conjunct2, THEN conjunct2, THEN mp, OF no_user] by simp
  show ?thesis
    using a b c d by (intro conjI)
qed

text \<open>
  Claim C10 as stated fails: a session handle authenticated with a user whose id is the
  empty string is authenticated and holds that user, but its user id is empty and
  \<open>getUserId\<close> reports it as absent; a \<open>send_message\<close> request on that session,
  registered through \<open>authenticateConnection\<close>, takes the \<open>Invalid user\<close> branch.
\<close>

theorem isAuth_with_empty_user_id_counterexample:
  "isAuth (authenticated_with [user_of ''''] ''s1'')
   \<and> getUser (authenticated_with [user_of ''''] ''s1'') = Some (user_of '''')
   \<and> id' (user_of '''') = []
   \<and> getUserId (authenticated_with [user_of ''''] ''s1'') = None
   \<and> getConnection ''s1''
        (registry_run [AuthenticateConnection ''s1'' (user_of '''')] two_sessions)
       = Some (authenticated_with [user_of ''''] ''s1'')
   \<and> send_message_handler ''s1'' ''m7'' 99
        \<lparr>p_to = ''nobody'', p_content = ''x'', p_metadata = None\<rparr>
        (registry_run [AuthenticateConnection ''s1'' (user_of '''')] two_sessions)
       = [Emit ''s1'' MESSAGE_ERROR (MessageErrorPayload None ''Invalid user'')]"
  by (simp add: send_message_handler_def authenticated_with_def registry_defs)

lemma authenticated_with_snoc:
  "authenticated_with (us @ [u]) sid = authenticate u (authenticated_with us sid)"
  by (simp add: authenticated_with_def)

lemma authenticated_with_fields:
  "isAuth (authenticated_with us sid) = (us \<noteq> [])
   \<and> getUser (authenticated_with us sid) = (if us = [] then None else Some (last us))"
proof (induction us rule: rev_induct)
  case Nil
  show ?case
    by (simp add: authenticated_with_def Connection_new_def isAuth_def getUser_def)
next
  case (snoc u us)
  show ?case
    by (simp add: authenticated_with_snoc authenticate_def isAuth_def getUser_def)
qed

text \<open>
  Claim C10, amended. A session handle that was created and then changed only by
  \<open>authenticate\<close> is authenticated exactly when it was authenticated at least once, and
  it then holds the user of the last authentication: \<open>isAuth()\<close> is true only if the
  handle holds a user, whose id may be empty. For such a handle registered under \<open>sid\<close>,
  a \<open>send_message\<close> request answers \<open>Invalid user\<close> exactly when the handle is
  authenticated and its user's id is the empty string; the branch is unreachable when
  every authenticated user has a non-empty id.
\<close>

theorem invalid_user_iff_empty_id:
  "isAuth (authenticated_with us sid') = (us \<noteq> [])
   \<and> getUser (authenticated_with us sid') = (if us = [] then None else Some (last us))
   \<and> (isAuth (authenticated_with us sid') \<longrightarrow> getUser (authenticated_with us sid') \<noteq> None)
   \<and> (getConnection sid cm = Some (authenticated_with us sid') \<longrightarrow>
        (send_message_handler sid uuid now p cm
           = [Emit sid MESSAGE_ERROR (MessageErrorPayload None ''Invalid user'')])
        = (us \<noteq> [] \<and> id' (last us) = []))"
proof -
  let ?c = "authenticated_with us sid'"
  note fields = authenticated_with_fields [of us sid']
  have reach: "send_message_handler sid uuid now p cm
           = [Emit sid MESSAGE_ERROR (MessageErrorPayload None ''Invalid user'')]
        \<longleftrightarrow> us \<noteq> [] \<and> id' (last us) = []"
    if reg: "getConnection sid cm = Some ?c"
  proof (cases "us = []")
    case True
    then have "\<not> isAuth ?c"
      using fields by simp
    then show ?thesis
      using reg True by (simp add: send_message_handler_def)
  next
    case False
    then have au: "isAuth ?c" and usr: "user ?c = Some (last us)"
      using fields by (simp_all add: getUser_def)
    show ?thesis
    proof (cases "id' (last us) = []")
      case True
      then have "getUserId ?c = None"
        using usr by (simp add: getUserId_def)
      then show ?thesis
        using reg au True False by (simp add: send_message_handler_def)
    next
      case nonempty: False
      then have "getUserId ?c = Some (id' (last us))"
        using usr by (simp add: getUserId_def)
      then show ?thesis
        using reg au nonempty by (simp add: send_message_handler_def split: option.splits)
    qed
  qed
  show ?thesis
    using fields reach by simp
qed

theorem invalid_user_iff_empty_id_witness:
  "getConnection ''s1'' alice_and_bob = Some (authenticated_with [user_of ''alice''] ''s1'')
   \<and> isAuth (authenticated_with [user_of ''alice''] ''s1'')
   \<and> getUser (authenticated_with [user_of ''alice''] ''s1'') = Some (user_of ''alice'')
   \<and> send_message_handler ''s1'' ''m1'' 42
        \<lparr>p_to = ''bob'', p_content = ''hi'', p_metadata = None\<rparr> alice_and_bob
       \<noteq> [Emit ''s1'' MESSAGE_ERROR (MessageErrorPayload None ''Invalid user'')]"
proof -
  note T = invalid_user_iff_empty_id
    [where us = "[user_of ''alice'']" and sid' = "''s1''" and sid = "''s1''"
      and cm = alice_and_bob and uuid = "''m1''" and now = 42
      and p = "\<lparr>p_to = ''bob'', p_content = ''hi'', p_metadata = None\<rparr>"]
  have reg: "getConnection ''s1'' alice_and_bob
      = Some (authenticated_with [user_of ''alice''] ''s1'')"
    by (simp add: alice_and_bob_def authenticated_with_def registry_defs)
  have a: "isAuth (authenticated_with [user_of ''alice''] ''s1'')"
    using T [THEN conjunct1] by simp
  have u: "getUser (authenticated_with [user_of ''alice''] ''s1'') = Some (user_of ''alice'')"
    using T [THEN conjunct2, THEN conjunct1] by simp
  have n: "send_message_handler ''s1'' ''m1'' 42
        \<lparr>p_to = ''bob'', p_content = ''hi'', p_metadata = None\<rparr> alice_and_bob
       \<noteq> [Emit ''s1'' MESSAGE_ERROR (MessageErrorPayload None ''Invalid user'')]"
    using T [THEN conjunct2, THEN conjunct2, THEN conjunct2, rule_format, OF reg]
    by (simp add: user_of_def)
  show ?thesis
    using reg a u n by (intro conjI)
qed

end
